theory Spec2Isabelle
  imports Main "HOL-Library.Sublist"
begin

section \<open>Browser-side glue of the visualizer: a model of common.js\<close>

text \<open>
  The script is a flat collection of event handlers over global state: the document, the
  origin's key-value store, the console, and three objects supplied by the page (the
  rendering-engine handle \<open>network\<close> and the record collections \<open>nodes\<close> and
  \<open>edges\<close>). Each handler is modelled as a function on a record of that state. What a
  handler sends to the outside (console messages, store accesses, update requests to a
  collection, downloads) is appended to a trace kept in the state.
\<close>

subsection \<open>Strings\<close>

text \<open>
  A string of the script is held as the list of the bytes of its UTF-8 encoding; the
  literals of the script are ASCII apart from the two icons of the info button.

  \<open>trim\<close> is \<open>String.prototype.trim\<close>: it removes from both ends the white space
  and line terminators of the language, which are the characters U+0009 to U+000D,
  U+0020, U+00A0, U+1680, U+2000 to U+200A, U+2028, U+2029, U+202F, U+205F, U+3000 and
  U+FEFF. \<open>white_space\<close> lists their encodings. No encoding of a character is the
  beginning or the end of the encoding of another one, so a string begins (or ends) with
  one of these characters when it begins (or ends) with its bytes.

  \<open>String.prototype.toLowerCase\<close> follows the case mapping of Unicode, a table of the
  language that is not part of this script. The functions that call it take it as their
  first argument, named \<open>toLowerCase\<close>, and what is proved of them holds for every
  function put there.

  \<open>includes_js\<close> is the substring test of \<open>String.prototype.includes\<close>.
\<close>

definition white_space :: "string list" where
  "white_space =
     [[CHR 0x09], [CHR 0x0A], [CHR 0x0B], [CHR 0x0C], [CHR 0x0D], [CHR 0x20],
      [CHR 0xC2, CHR 0xA0],
      [CHR 0xE1, CHR 0x9A, CHR 0x80],
      [CHR 0xE2, CHR 0x80, CHR 0x80], [CHR 0xE2, CHR 0x80, CHR 0x81],
      [CHR 0xE2, CHR 0x80, CHR 0x82], [CHR 0xE2, CHR 0x80, CHR 0x83],
      [CHR 0xE2, CHR 0x80, CHR 0x84], [CHR 0xE2, CHR 0x80, CHR 0x85],
      [CHR 0xE2, CHR 0x80, CHR 0x86], [CHR 0xE2, CHR 0x80, CHR 0x87],
      [CHR 0xE2, CHR 0x80, CHR 0x88], [CHR 0xE2, CHR 0x80, CHR 0x89],
      [CHR 0xE2, CHR 0x80, CHR 0x8A],
      [CHR 0xE2, CHR 0x80, CHR 0xA8], [CHR 0xE2, CHR 0x80, CHR 0xA9],
      [CHR 0xE2, CHR 0x80, CHR 0xAF],
      [CHR 0xE2, CHR 0x81, CHR 0x9F],
      [CHR 0xE3, CHR 0x80, CHR 0x80],
      [CHR 0xEF, CHR 0xBB, CHR 0xBF]]"

function strip_leading :: "string list \<Rightarrow> string \<Rightarrow> string" where
  "strip_leading ws s =
     (case find (\<lambda>w. w \<noteq> [] \<and> prefix w s) ws of
        None \<Rightarrow> s
      | Some w \<Rightarrow> strip_leading ws (drop (length w) s))"
  by pat_completeness auto
termination
proof (relation "measure (\<lambda>(ws, s). length s)")
  show "wf (measure (\<lambda>(ws, s). length s))" by simp
next
  fix ws :: "string list" and s w :: string
  assume "find (\<lambda>w. w \<noteq> [] \<and> prefix w s) ws = Some w"
  then have "w \<noteq> []" and "prefix w s" by (auto simp: find_Some_iff)
  then have "s \<noteq> []" by auto
  then show "((ws, drop (length w) s), (ws, s)) \<in> measure (\<lambda>(ws, s). length s)"
    using \<open>w \<noteq> []\<close> by simp
qed

declare strip_leading.simps [simp del]

definition trim :: "string \<Rightarrow> string" where
  "trim s = rev (strip_leading (map rev white_space) (rev (strip_leading white_space s)))"

fun includes_js :: "string \<Rightarrow> string \<Rightarrow> bool" where
  "includes_js [] q = (q = [])"
| "includes_js (c # cs) q = (prefix q (c # cs) \<or> includes_js cs q)"

text \<open>\<open>String(v)\<close> and the truth value of \<open>v\<close>, for a field that holds a string or is
  undefined.\<close>

fun String_js :: "string option \<Rightarrow> string" where
  "String_js None = ''undefined''"
| "String_js (Some v) = v"

fun truthy :: "string option \<Rightarrow> bool" where
  "truthy None = False"
| "truthy (Some v) = (v \<noteq> [])"

subsection \<open>The colour palette\<close>

record palette =
  nodeDefault :: string
  nodeBorder :: string
  nodeSelected :: string
  nodeSelectedBorder :: string
  nodeHighlighted :: string
  nodeHighlightedBorder :: string
  nodeAnimated :: string
  nodeAnimatedBorder :: string
  nodeSearchResult :: string
  nodeSearchBorder :: string
  nodeHover :: string
  edgeDefault :: string
  edgeSelected :: string
  edgeHighlighted :: string
  textDefault :: string

definition colorPalette :: palette where
  "colorPalette = \<lparr>
     nodeDefault = ''#7aa2f7'',
     nodeBorder = ''#565f89'',
     nodeSelected = ''#bb9af7'',
     nodeSelectedBorder = ''#9d7cd8'',
     nodeHighlighted = ''#e0af68'',
     nodeHighlightedBorder = ''#c49a61'',
     nodeAnimated = ''#9ece6a'',
     nodeAnimatedBorder = ''#73a84c'',
     nodeSearchResult = ''#f7768e'',
     nodeSearchBorder = ''#e06b83'',
     nodeHover = ''#9ece6a'',
     edgeDefault = ''#565f89'',
     edgeSelected = ''#bb9af7'',
     edgeHighlighted = ''#e0af68'',
     textDefault = ''#ffffffff'' \<rparr>"

subsection \<open>Node and edge records, and the collections that hold them\<close>

type_synonym ident = nat

record node_color =
  background :: string
  border :: string

datatype edge_color = EdgeColor string

record node =
  node_id :: ident
  label :: "string option"
  title :: "string option"
  color :: "node_color option"

record edge =
  edge_id :: ident
  edge_color :: "edge_color option"

record node_update =
  upd_id :: ident
  upd_color :: node_color

record edge_update =
  eupd_id :: ident
  eupd_color :: edge_color

text \<open>
  Modelled from the spec: the two record collections are objects of the graph widget, not
  of this script. The spec gives them \<open>getIds()\<close>, \<open>get(filter)\<close> and \<open>update(list)\<close> over
  identifier-keyed records. A collection is the list of its records in insertion order.
  \<open>update\<close> takes the entries one by one: an entry whose id is held by a record
  overwrites the fields it carries (here the colour) in that record, and an entry with an
  unknown id adds a record made of the entry's fields.
\<close>

definition getIds :: "node list \<Rightarrow> ident list" where
  "getIds ns = map node_id ns"

definition get_filter :: "(node \<Rightarrow> bool) \<Rightarrow> node list \<Rightarrow> node list" where
  "get_filter f ns = filter f ns"

definition update_item :: "node_update \<Rightarrow> node list \<Rightarrow> node list" where
  "update_item u ns =
     (if upd_id u \<in> set (getIds ns)
      then map (\<lambda>n. if node_id n = upd_id u then n\<lparr>color := Some (upd_color u)\<rparr> else n) ns
      else ns @ [\<lparr>node_id = upd_id u, label = None, title = None,
                  color = Some (upd_color u)\<rparr>])"

definition update :: "node_update list \<Rightarrow> node list \<Rightarrow> node list" where
  "update us ns = fold update_item us ns"

definition getIds_e :: "edge list \<Rightarrow> ident list" where
  "getIds_e es = map edge_id es"

definition update_item_e :: "edge_update \<Rightarrow> edge list \<Rightarrow> edge list" where
  "update_item_e u es =
     (if eupd_id u \<in> set (getIds_e es)
      then map (\<lambda>e. if edge_id e = eupd_id u then e\<lparr>edge_color := Some (eupd_color u)\<rparr> else e) es
      else es @ [\<lparr>edge_id = eupd_id u, edge_color = Some (eupd_color u)\<rparr>])"

definition update_e :: "edge_update list \<Rightarrow> edge list \<Rightarrow> edge list" where
  "update_e us es = fold update_item_e us es"

subsection \<open>The page\<close>

record element =
  innerHTML :: string
  classList :: "string set"
  elem_title :: string
  input_value :: string
  style_display :: string

datatype js_error = TypeError | SecurityError

record html_canvas =
  toDataURL :: "js_error + string"

record canvas_frame =
  frame_canvas :: "html_canvas option"

record net_canvas =
  frame :: "canvas_frame option"

record network_handle =
  canvas :: "net_canvas option"
  selection :: "ident list"

datatype event =
    ConsoleWarn string
  | ConsoleError string
  | GetItem string
  | SetItem string string
  | NodesUpdate "node_update list"
  | EdgesUpdate "edge_update list"
  | Download string string
  | Fit

datatype listener = ThemeInit bool | InfoBoxInit

text \<open>
  \<open>network\<close>, \<open>nodes\<close> and \<open>edges\<close> are globals declared by the page; \<open>None\<close> is a
  global that holds no object (the script tests them with \<open>!x\<close>). \<open>localStorage\<close> is
  \<open>None\<close> when reading the global \<open>localStorage\<close> itself throws, so that no method of
  the store is ever called; a store that can be reached has its entries and may still
  throw from \<open>getItem\<close> or from \<open>setItem\<close>.
  \<open>listeners\<close> are the handlers registered for \<open>DOMContentLoaded\<close>.
  The trace holds, in order, what the script sent out: the messages of \<open>console.warn\<close>
  and \<open>console.error\<close>, the calls of \<open>getItem\<close> and \<open>setItem\<close> it made on a store
  it reached (whether they returned or threw), the calls of \<open>update\<close> on the two
  collections with their argument, the downloads it started (file name and address) and
  the calls of \<open>fit\<close>.
\<close>

record storage =
  entries :: "string \<rightharpoonup> string"
  getItem_throws :: bool
  setItem_throws :: bool

record page =
  body_classList :: "string set"
  elements :: "string \<rightharpoonup> element"
  localStorage :: "storage option"
  network :: "network_handle option"
  nodes :: "node list option"
  edges :: "edge list option"
  listeners :: "listener list"
  trace :: "event list"

definition emit :: "event \<Rightarrow> page \<Rightarrow> page" where
  "emit ev s = s\<lparr>trace := trace s @ [ev]\<rparr>"

definition update_nodes :: "node_update list \<Rightarrow> page \<Rightarrow> page" where
  "update_nodes us s = emit (NodesUpdate us) (s\<lparr>nodes := map_option (update us) (nodes s)\<rparr>)"

definition update_edges :: "edge_update list \<Rightarrow> page \<Rightarrow> page" where
  "update_edges us s = emit (EdgesUpdate us) (s\<lparr>edges := map_option (update_e us) (edges s)\<rparr>)"

subsection \<open>Selection and highlight utilities\<close>

definition default_node_color :: node_color where
  "default_node_color =
     \<lparr>background = nodeDefault colorPalette, border = nodeBorder colorPalette\<rparr>"

definition default_edge_color :: edge_color where
  "default_edge_color = EdgeColor (edgeDefault colorPalette)"

definition search_node_color :: node_color where
  "search_node_color =
     \<lparr>background = nodeSearchResult colorPalette, border = nodeSearchBorder colorPalette\<rparr>"

definition resetColors :: "page \<Rightarrow> page" where
  "resetColors s =
     (case (nodes s, edges s) of
        (Some ns, Some es) \<Rightarrow>
          (let nodeUpdates = map (\<lambda>i. \<lparr>upd_id = i, upd_color = default_node_color\<rparr>) (getIds ns);
               s1 = (if length nodeUpdates > 0 then update_nodes nodeUpdates s else s);
               edgeUpdates = map (\<lambda>i. \<lparr>eupd_id = i, eupd_color = default_edge_color\<rparr>) (getIds_e es)
           in if length edgeUpdates > 0 then update_edges edgeUpdates s1 else s1)
      | _ \<Rightarrow> s)"

definition node_matches :: "(string \<Rightarrow> string) \<Rightarrow> string \<Rightarrow> node \<Rightarrow> bool" where
  "node_matches toLowerCase query n =
     (includes_js (toLowerCase (String_js (label n))) (toLowerCase query) \<or>
      (truthy (title n) \<and> includes_js (toLowerCase (String_js (title n))) (toLowerCase query)))"

definition searchNodes :: "(string \<Rightarrow> string) \<Rightarrow> string \<Rightarrow> page \<Rightarrow> page" where
  "searchNodes toLowerCase query s =
     (case nodes s of
        None \<Rightarrow> s
      | Some _ \<Rightarrow>
          (let s1 = resetColors s in
           if trim query = [] then s1
           else
             (let matchingNodes =
                    get_filter (node_matches toLowerCase query) (case nodes s1 of None \<Rightarrow> [] | Some ns \<Rightarrow> ns)
              in if length matchingNodes > 0
                 then update_nodes
                        (map (\<lambda>n. \<lparr>upd_id = node_id n, upd_color = search_node_color\<rparr>) matchingNodes) s1
                 else s1)))"

subsection \<open>Icon injector\<close>

definition svgIcons :: "(string \<times> string) list" where
  \<open>svgIcons = [
    (''theme'',
     ''<svg xmlns="http://www.w3.org/2000/svg" viewBox="0 0 24 24"><path d="M21 12.79A9 9 0 1 1 11.21 3 7 7 0 0 0 21 12.79z"></path></svg>''),
    (''expand'',
     ''<svg xmlns="http://www.w3.org/2000/svg" viewBox="0 0 24 24"><path d="M14 2H6a2 2 0 0 0-2 2v16a2 2 0 0 0 2 2h12a2 2 0 0 0 2-2V8z"></path><polyline points="14 2 14 8 20 8"></polyline><line x1="12" y1="18" x2="12" y2="12"></line><line x1="9" y1="15" x2="15" y2="15"></line></svg>''),
    (''collapse'',
     ''<svg xmlns="http://www.w3.org/2000/svg" viewBox="0 0 24 24"><path d="M14 2H6a2 2 0 0 0-2 2v16a2 2 0 0 0 2 2h12a2 2 0 0 0 2-2V8z"></path><polyline points="14 2 14 8 20 8"></polyline><line x1="9" y1="15" x2="15" y2="15"></line></svg>''),
    (''center'',
     ''<svg xmlns="http://www.w3.org/2000/svg" viewBox="0 0 24 24"><circle cx="12" cy="12" r="3"></circle><line x1="12" y1="1" x2="12" y2="4"></line><line x1="12" y1="20" x2="12" y2="23"></line><line x1="4" y1="12" x2="1" y2="12"></line><line x1="23" y1="12" x2="20" y2="12"></line><line x1="19.07" y1="4.93" x2="16.95" y2="7.05"></line><line x1="7.05" y1="16.95" x2="4.93" y2="19.07"></line><line x1="19.07" y1="19.07" x2="16.95" y2="16.95"></line><line x1="7.05" y1="7.05" x2="4.93" y2="4.93"></line></svg>''),
    (''clear'',
     ''<svg xmlns="http://www.w3.org/2000/svg" viewBox="0 0 24 24" fill="none" stroke="currentColor" stroke-width="2" stroke-linecap="round" stroke-linejoin="round"><path d="M21 4H8l-7 8 7 8h13a2 2 0 0 0 2-2V6a2 2 0 0 0-2-2z"></path><line x1="18" y1="9" x2="12" y2="15"></line><line x1="12" y1="9" x2="18" y2="15"></line></svg>''),
    (''png'',
     ''<svg xmlns="http://www.w3.org/2000/svg" viewBox="0 0 24 24"><rect x="3" y="3" width="18" height="18" rx="2" ry="2"></rect><circle cx="8.5" cy="8.5" r="1.5"></circle><polyline points="21 15 16 10 5 21"></polyline></svg>''),
    (''json'',
     ''<svg xmlns="http://www.w3.org/2000/svg" viewBox="0 0 24 24"><polyline points="16 18 22 12 16 6"></polyline><polyline points="8 6 2 12 8 18"></polyline></svg>''),
    (''play'',
     ''<svg xmlns="http://www.w3.org/2000/svg" viewBox="0 0 24 24"><polygon points="5 3 19 12 5 21 5 3"></polygon></svg>''),
    (''pause'',
     ''<svg xmlns="http://www.w3.org/2000/svg" viewBox="0 0 24 24"><rect x="6" y="4" width="4" height="16"></rect><rect x="14" y="4" width="4" height="16"></rect></svg>''),
    (''stop'',
     ''<svg xmlns="http://www.w3.org/2000/svg" viewBox="0 0 24 24"><rect x="4" y="4" width="16" height="16"></rect></svg>''),
    (''step'',
     ''<svg xmlns="http://www.w3.org/2000/svg" viewBox="0 0 24 24"><polygon points="5 4 15 12 5 20 5 4"></polygon><line x1="19" y1="5" x2="19" y2="19"></line></svg>'')]\<close>

definition icon_of :: "string \<Rightarrow> string" where
  "icon_of key = String_js (map_of svgIcons key)"

text \<open>
  Modelled from the spec: the current text of a control, which \<open>applyIcons\<close> preserves,
  is read with \<open>textContent\<close>, a getter of the document and not of this script. It is the
  text of an element without its markup: the characters of the content that lie outside
  tags, a tag running from an opening angle bracket to the next closing one. Character
  references are not decoded.
\<close>

fun strip_markup :: "bool \<Rightarrow> string \<Rightarrow> string" where
  "strip_markup in_tag [] = []"
| "strip_markup False (c # cs) =
     (if c = CHR ''<'' then strip_markup True cs else c # strip_markup False cs)"
| "strip_markup True (c # cs) =
     (if c = CHR ''>'' then strip_markup False cs else strip_markup True cs)"

definition textContent :: "element \<Rightarrow> string" where
  "textContent e = strip_markup False (innerHTML e)"

definition button_icon :: "string \<Rightarrow> string" where
  \<open>button_icon svg = ''<span class="button-icon">'' @ svg @ ''</span>''\<close>

definition button_id :: "string \<Rightarrow> string" where
  "button_id key = ''btn-'' @ key"

fun applyIcons_loop :: "(string \<times> string) list \<Rightarrow> (string \<rightharpoonup> element) \<Rightarrow> (string \<rightharpoonup> element)" where
  "applyIcons_loop [] d = d"
| "applyIcons_loop ((key, svg) # rest) d =
     applyIcons_loop rest
       (case d (button_id key) of
          None \<Rightarrow> d
        | Some button \<Rightarrow>
            (let originalText = trim (textContent button)
             in d(button_id key \<mapsto> button\<lparr>innerHTML := button_icon svg @ '' '' @ originalText\<rparr>)))"

definition applyIcons :: "page \<Rightarrow> page" where
  "applyIcons s = s\<lparr>elements := applyIcons_loop svgIcons (elements s)\<rparr>"

subsection \<open>Theme manager\<close>

definition toggle_class :: "string \<Rightarrow> string set \<Rightarrow> string set" where
  "toggle_class c cl = (if c \<in> cl then cl - {c} else insert c cl)"

definition storage_warning :: string where
  "storage_warning = ''localStorage not available for theme persistence''"

definition updateThemeButton :: "bool \<Rightarrow> page \<Rightarrow> page" where
  "updateThemeButton isLight s =
     (case elements s ''theme-toggle-btn'' of
        None \<Rightarrow> s
      | Some themeToggleButton \<Rightarrow>
          (let themeName = (if isLight then ''Dark'' else ''Light'')
           in s\<lparr>elements := (elements s)(''theme-toggle-btn'' \<mapsto>
                 themeToggleButton\<lparr>innerHTML :=
                   button_icon (icon_of ''theme'') @ '' Switch to '' @ themeName @ '' Theme''\<rparr>)\<rparr>))"

definition toggleTheme :: "page \<Rightarrow> page" where
  "toggleTheme s =
     (let s1 = s\<lparr>body_classList := toggle_class ''light-theme'' (body_classList s)\<rparr>;
          isLight = (''light-theme'' \<in> body_classList s1);
          v = (if isLight then ''light'' else ''dark'');
          s2 = (case localStorage s1 of
                  None \<Rightarrow> emit (ConsoleWarn storage_warning) s1
                | Some store \<Rightarrow>
                    (let s1' = emit (SetItem ''theme'' v) s1
                     in if setItem_throws store
                        then emit (ConsoleWarn storage_warning) s1'
                        else s1'\<lparr>localStorage := Some (store\<lparr>entries := (entries store)(''theme'' \<mapsto> v)\<rparr>)\<rparr>))
      in updateThemeButton isLight s2)"

text \<open>
  The function that runs when the script is loaded: it reads the saved theme, adds the
  light class when the saved theme is light, and registers the handler that labels the
  theme button and installs the icons once the document is complete.
\<close>

definition theme_load :: "page \<Rightarrow> page" where
  "theme_load s =
     (let read = (case localStorage s of
                    None \<Rightarrow> (''dark'', emit (ConsoleWarn storage_warning) s)
                  | Some store \<Rightarrow>
                      (let s1 = emit (GetItem ''theme'') s
                       in if getItem_throws store
                          then (''dark'', emit (ConsoleWarn storage_warning) s1)
                          else (if truthy (entries store ''theme'')
                                then String_js (entries store ''theme'') else ''dark'', s1)));
          savedTheme = fst read;
          s2 = snd read;
          isLight = (savedTheme = ''light'');
          s3 = (if isLight
                then s2\<lparr>body_classList := insert ''light-theme'' (body_classList s2)\<rparr>
                else s2)
      in s3\<lparr>listeners := listeners s3 @ [ThemeInit isLight]\<rparr>)"

subsection \<open>Info panel toggle\<close>

definition gear_icon :: string where
  "gear_icon = [CHR 0xE2, CHR 0x9A, CHR 0x99, CHR 0xEF, CHR 0xB8, CHR 0x8F]"

definition arrow_icon :: string where
  "arrow_icon = [CHR 0xE2, CHR 0x9E, CHR 0xA1, CHR 0xEF, CHR 0xB8, CHR 0x8F]"

definition toggleInfoBox :: "page \<Rightarrow> page" where
  "toggleInfoBox s =
     (case elements s ''info-box'' of
        None \<Rightarrow> s
      | Some infoBox \<Rightarrow>
          (case elements s ''toggle-info-btn'' of
             None \<Rightarrow> s
           | Some toggleBtn \<Rightarrow>
               (let infoBox' = infoBox\<lparr>classList := toggle_class ''hidden'' (classList infoBox)\<rparr>;
                    toggleBtn' =
                      (if ''hidden'' \<in> classList infoBox'
                       then toggleBtn\<lparr>classList := classList toggleBtn - {''info-visible''},
                                      innerHTML := gear_icon,
                                      elem_title := ''Show Info Panel''\<rparr>
                       else toggleBtn\<lparr>classList := insert ''info-visible'' (classList toggleBtn),
                                      innerHTML := arrow_icon,
                                      elem_title := ''Hide Info Panel''\<rparr>)
                in s\<lparr>elements := (elements s)(''info-box'' \<mapsto> infoBox',
                                               ''toggle-info-btn'' \<mapsto> toggleBtn')\<rparr>)))"

text \<open>The two handlers of \<open>DOMContentLoaded\<close>, and the load of the whole script.\<close>

fun run_listener :: "listener \<Rightarrow> page \<Rightarrow> page" where
  "run_listener (ThemeInit isLight) s = applyIcons (updateThemeButton isLight s)"
| "run_listener InfoBoxInit s =
     (case elements s ''info-box'' of
        None \<Rightarrow> s
      | Some infoBox \<Rightarrow>
          (case elements s ''toggle-info-btn'' of
             None \<Rightarrow> s
           | Some toggleBtn \<Rightarrow>
               s\<lparr>elements := (elements s)(
                    ''info-box'' \<mapsto> infoBox\<lparr>classList := insert ''hidden'' (classList infoBox)\<rparr>,
                    ''toggle-info-btn'' \<mapsto>
                       toggleBtn\<lparr>classList := classList toggleBtn - {''info-visible''},
                                 innerHTML := gear_icon,
                                 elem_title := ''Show Info Panel''\<rparr>)\<rparr>))"

definition DOMContentLoaded :: "page \<Rightarrow> page" where
  "DOMContentLoaded s = fold run_listener (listeners s) s"

definition script_load :: "page \<Rightarrow> page" where
  "script_load s = (let s1 = theme_load s in s1\<lparr>listeners := listeners s1 @ [InfoBoxInit]\<rparr>)"

subsection \<open>Export and selection\<close>

definition exportPNG :: "page \<Rightarrow> js_error + page" where
  "exportPNG s =
     (let unavailable = Inr (emit (ConsoleError ''Network canvas not available for PNG export'') s)
      in case network s of
           None \<Rightarrow> unavailable
         | Some net \<Rightarrow>
             (case canvas net of
                None \<Rightarrow> unavailable
              | Some cv \<Rightarrow>
                  (case frame cv of
                     None \<Rightarrow> unavailable
                   | Some fr \<Rightarrow>
                       (case frame_canvas fr of
                          None \<Rightarrow> Inl TypeError
                        | Some c \<Rightarrow>
                            (case toDataURL c of
                               Inl e \<Rightarrow> Inl e
                             | Inr url \<Rightarrow> Inr (emit (Download ''visualization.png'' url) s))))))"

definition centerView :: "page \<Rightarrow> page" where
  "centerView s = (case network s of None \<Rightarrow> s | Some net \<Rightarrow> emit Fit s)"

definition hideNodeInfo :: "page \<Rightarrow> page" where
  "hideNodeInfo s =
     (case elements s ''node-info'' of
        None \<Rightarrow> s
      | Some nodeInfo \<Rightarrow>
          s\<lparr>elements := (elements s)(''node-info'' \<mapsto> nodeInfo\<lparr>style_display := ''none''\<rparr>)\<rparr>)"

definition unselectAll :: "network_handle \<Rightarrow> network_handle" where
  "unselectAll net = net\<lparr>selection := []\<rparr>"

definition clearSelection :: "page \<Rightarrow> page" where
  "clearSelection s =
     (case network s of
        None \<Rightarrow> s
      | Some net \<Rightarrow> hideNodeInfo (resetColors (s\<lparr>network := Some (unselectAll net)\<rparr>)))"

definition clearHighlights :: "page \<Rightarrow> page" where
  "clearHighlights s =
     (let s1 = resetColors s
      in case elements s1 ''search-input'' of
           None \<Rightarrow> s1
         | Some searchInput \<Rightarrow>
             s1\<lparr>elements := (elements s1)(''search-input'' \<mapsto> searchInput\<lparr>input_value := []\<rparr>)\<rparr>)"

section \<open>Notions used in the statements\<close>

subsection \<open>Colours and update requests\<close>

text \<open>A record with its colour replaced, and the requests that one run of \<open>resetColors\<close>
  sends when both collections are present: none for an empty collection.\<close>

definition paint :: "node_color \<Rightarrow> node \<Rightarrow> node" where
  "paint c n = n\<lparr>color := Some c\<rparr>"

definition paint_e :: "edge_color \<Rightarrow> edge \<Rightarrow> edge" where
  "paint_e c e = e\<lparr>edge_color := Some c\<rparr>"

definition reset_calls :: "node list \<Rightarrow> edge list \<Rightarrow> event list" where
  "reset_calls ns es =
     (if ns = [] then []
      else [NodesUpdate (map (\<lambda>i. \<lparr>upd_id = i, upd_color = default_node_color\<rparr>) (getIds ns))]) @
     (if es = [] then []
      else [EdgesUpdate (map (\<lambda>i. \<lparr>eupd_id = i, eupd_color = default_edge_color\<rparr>) (getIds_e es))])"





text \<open>An update request is keyed by existing records when every entry carries the id of a
  record of the collection it is sent to. \<open>new_events s s'\<close> is what a handler that took
  the page from \<open>s\<close> to \<open>s'\<close> added to the trace.\<close>

fun keyed_by_existing :: "page \<Rightarrow> event \<Rightarrow> bool" where
  "keyed_by_existing s (NodesUpdate us) =
     (case nodes s of None \<Rightarrow> False | Some ns \<Rightarrow> list_all (\<lambda>u. upd_id u \<in> set (getIds ns)) us)"
| "keyed_by_existing s (EdgesUpdate us) =
     (case edges s of None \<Rightarrow> False | Some es \<Rightarrow> list_all (\<lambda>u. eupd_id u \<in> set (getIds_e es)) us)"
| "keyed_by_existing s ev = True"

definition new_events :: "page \<Rightarrow> page \<Rightarrow> event list" where
  "new_events s s' = drop (length (trace s)) (trace s')"

subsection \<open>Theme\<close>

text \<open>
  The page is in light mode when the body carries the light class. \<open>stored_theme\<close> is
  the entry under the key \<open>theme\<close>: \<open>None\<close> for a store that cannot be reached,
  \<open>Some None\<close> for no entry. A store is writable when it can be reached and its
  \<open>setItem\<close> does not throw. \<open>theme_button_label\<close> is the content of the theme button,
  and \<open>opposite_label\<close> is the content that names the mode opposite to the given one:
  the theme icon followed by the invitation to switch to that mode.
\<close>

definition is_light :: "page \<Rightarrow> bool" where
  "is_light s = (''light-theme'' \<in> body_classList s)"

definition stored_theme :: "page \<Rightarrow> string option option" where
  "stored_theme s = map_option (\<lambda>store. entries store ''theme'') (localStorage s)"

definition writable :: "page \<Rightarrow> bool" where
  "writable s = (case localStorage s of None \<Rightarrow> False | Some store \<Rightarrow> \<not> setItem_throws store)"

definition theme_button_label :: "page \<Rightarrow> string option" where
  "theme_button_label s = map_option innerHTML (elements s ''theme-toggle-btn'')"

definition opposite_label :: "bool \<Rightarrow> string" where
  "opposite_label light =
     (if light then button_icon (icon_of ''theme'') @ '' Switch to Dark Theme''
      else button_icon (icon_of ''theme'') @ '' Switch to Light Theme'')"

text \<open>The calls made on the store, and when the load of the script finds no theme to
  apply: the store cannot be reached, its \<open>getItem\<close> throws, or it has no entry.\<close>

fun is_store_call :: "event \<Rightarrow> bool" where
  "is_store_call (GetItem k) = True"
| "is_store_call (SetItem k v) = True"
| "is_store_call ev = False"

definition store_unavailable :: "page \<Rightarrow> bool" where
  "store_unavailable s = (case localStorage s of None \<Rightarrow> True | Some store \<Rightarrow> getItem_throws store)"

definition theme_absent :: "page \<Rightarrow> bool" where
  "theme_absent s = (case localStorage s of None \<Rightarrow> False | Some store \<Rightarrow> entries store ''theme'' = None)"

subsection \<open>Info panel\<close>

text \<open>
  Whether the panel is hidden, and the face (icon and title) of its toggle button. The
  button has two faces, one for each state of the panel; the page is settled when panel
  and button exist and the button shows the face of the panel's state.
\<close>

definition info_hidden :: "page \<Rightarrow> bool option" where
  "info_hidden s = map_option (\<lambda>e. ''hidden'' \<in> classList e) (elements s ''info-box'')"

definition toggle_face :: "page \<Rightarrow> (string \<times> string) option" where
  "toggle_face s = map_option (\<lambda>e. (innerHTML e, elem_title e)) (elements s ''toggle-info-btn'')"

definition face_for :: "bool \<Rightarrow> string \<times> string" where
  "face_for hidden =
     (if hidden then (gear_icon, ''Show Info Panel'') else (arrow_icon, ''Hide Info Panel''))"

definition info_settled :: "page \<Rightarrow> bool" where
  "info_settled s =
     (case info_hidden s of
        None \<Rightarrow> False
      | Some h \<Rightarrow> toggle_face s = Some (face_for h))"

subsection \<open>Icons\<close>






subsection \<open>Example pages\<close>

text \<open>
  For the examples, whose strings are ASCII, the lower-casing of the letters A to Z. On
  such strings it does what \<open>String.prototype.toLowerCase\<close> does.
\<close>

definition ascii_lower :: "string \<Rightarrow> string" where
  "ascii_lower s =
     map (\<lambda>c. case map_of (zip ''ABCDEFGHIJKLMNOPQRSTUVWXYZ'' ''abcdefghijklmnopqrstuvwxyz'') c of
                None \<Rightarrow> c
              | Some l \<Rightarrow> l) s"

definition empty_store :: storage where
  "empty_store = \<lparr>entries = Map.empty, getItem_throws = False, setItem_throws = False\<rparr>"

definition blank_page :: page where
  "blank_page = \<lparr>body_classList = {}, elements = Map.empty, localStorage = Some empty_store,
     network = None, nodes = None, edges = None, listeners = [], trace = []\<rparr>"


definition list_nodes :: "node list" where
  "list_nodes =
     [\<lparr>node_id = 1, label = Some ''Head'', title = None, color = None\<rparr>,
      \<lparr>node_id = 2, label = Some ''42'', title = Some ''tail node'', color = Some search_node_color\<rparr>]"

definition list_edges :: "edge list" where
  "list_edges = [\<lparr>edge_id = 7, edge_color = Some (EdgeColor (edgeHighlighted colorPalette))\<rparr>]"

definition graph_page :: page where
  "graph_page = blank_page\<lparr>nodes := Some list_nodes, edges := Some list_edges\<rparr>"

definition edgeless_page :: page where
  "edgeless_page = blank_page\<lparr>nodes := Some list_nodes\<rparr>"

definition no_nodes_page :: page where
  "no_nodes_page = blank_page\<lparr>nodes := Some [], edges := Some list_edges\<rparr>"

definition offline_page :: page where
  "offline_page = graph_page\<lparr>elements :=
     [''node-info'' \<mapsto> \<lparr>innerHTML = ''Head'', classList = {}, elem_title = [], input_value = [],
                       style_display = ''block''\<rparr>]\<rparr>"

definition frameless_page :: page where
  "frameless_page = blank_page\<lparr>network := Some \<lparr>canvas = Some \<lparr>frame = None\<rparr>, selection = [1]\<rparr>\<rparr>"

text \<open>A page with the theme button, one icon button, the info panel and its toggle, as the
  markup gives them; the same page with a store that cannot be reached and with a store
  whose methods throw; and the page after the script was
  loaded on it and \<open>DOMContentLoaded\<close> was dispatched, as on a first visit.\<close>

definition start_page :: page where
  "start_page = blank_page\<lparr>elements :=
     [''theme-toggle-btn'' \<mapsto> \<lparr>innerHTML = ''Theme'', classList = {}, elem_title = [], input_value = [], style_display = []\<rparr>,
      ''btn-stop'' \<mapsto> \<lparr>innerHTML = ''Stop'', classList = {}, elem_title = [], input_value = [], style_display = []\<rparr>,
      ''info-box'' \<mapsto> \<lparr>innerHTML = ''Details'', classList = {''panel''}, elem_title = [], input_value = [], style_display = []\<rparr>,
      ''toggle-info-btn'' \<mapsto> \<lparr>innerHTML = ''i'', classList = {''info-visible''}, elem_title = [], input_value = [], style_display = []\<rparr>]\<rparr>"

definition no_store_page :: page where
  "no_store_page = start_page\<lparr>localStorage := None\<rparr>"

definition throwing_store_page :: page where
  "throwing_store_page =
     start_page\<lparr>localStorage := Some (empty_store\<lparr>getItem_throws := True, setItem_throws := True\<rparr>)\<rparr>"

definition first_visit :: page where
  "first_visit = DOMContentLoaded (script_load start_page)"

section \<open>Strings\<close>

lemma strip_leading_fixed:
  "\<forall>w \<in> set ws. w \<noteq> [] \<longrightarrow> \<not> prefix w s \<Longrightarrow> strip_leading ws s = s"
  by (subst strip_leading.simps) (auto simp: find_Some_iff split: option.splits)

lemma strip_leading_Nil: "strip_leading ws [] = []"
  by (rule strip_leading_fixed) simp





lemma trim_Nil: "trim [] = []"
  by (simp add: trim_def strip_leading_Nil)

lemma trim_nonempty: "trim q \<noteq> [] \<Longrightarrow> q \<noteq> []"
  using trim_Nil by auto






section \<open>The record collections\<close>


lemma getIds_update_item:
  "upd_id u \<in> set (getIds ns) \<Longrightarrow> getIds (update_item u ns) = getIds ns"
  by (simp add: update_item_def getIds_def comp_def cong: map_cong) 

lemma update_same_color:
  "set ids \<subseteq> set (getIds ns) \<Longrightarrow>
   update (map (\<lambda>i. \<lparr>upd_id = i, upd_color = c\<rparr>) ids) ns =
   map (\<lambda>n. if node_id n \<in> set ids then n\<lparr>color := Some c\<rparr> else n) ns"
proof (induction ids arbitrary: ns)
  case Nil
  then show ?case by (simp add: update_def)
next
  case (Cons i ids)
  let ?u = "\<lparr>upd_id = i, upd_color = c\<rparr>"
  have ids: "getIds (update_item ?u ns) = getIds ns"
    using Cons.prems by (simp add: getIds_update_item)
  have "update (map (\<lambda>i. \<lparr>upd_id = i, upd_color = c\<rparr>) (i # ids)) ns =
        update (map (\<lambda>i. \<lparr>upd_id = i, upd_color = c\<rparr>) ids) (update_item ?u ns)"
    by (simp add: update_def)
  also have "\<dots> = map (\<lambda>n. if node_id n \<in> set ids then n\<lparr>color := Some c\<rparr> else n) (update_item ?u ns)"
    using Cons.prems ids by (intro Cons.IH) simp
  also have "\<dots> = map (\<lambda>n. if node_id n \<in> set (i # ids) then n\<lparr>color := Some c\<rparr> else n) ns"
    using Cons.prems by (auto simp: update_item_def)
  finally show ?case .
qed

lemma getIds_e_update_item_e:
  "eupd_id u \<in> set (getIds_e es) \<Longrightarrow> getIds_e (update_item_e u es) = getIds_e es"
  by (simp add: update_item_e_def getIds_e_def comp_def cong: map_cong)

lemma update_e_same_color:
  "set ids \<subseteq> set (getIds_e es) \<Longrightarrow>
   update_e (map (\<lambda>i. \<lparr>eupd_id = i, eupd_color = c\<rparr>) ids) es =
   map (\<lambda>e. if edge_id e \<in> set ids then e\<lparr>edge_color := Some c\<rparr> else e) es"
proof (induction ids arbitrary: es)
  case Nil
  then show ?case by (simp add: update_e_def)
next
  case (Cons i ids)
  let ?u = "\<lparr>eupd_id = i, eupd_color = c\<rparr>"
  have ids: "getIds_e (update_item_e ?u es) = getIds_e es"
    using Cons.prems by (simp add: getIds_e_update_item_e)
  have "update_e (map (\<lambda>i. \<lparr>eupd_id = i, eupd_color = c\<rparr>) (i # ids)) es =
        update_e (map (\<lambda>i. \<lparr>eupd_id = i, eupd_color = c\<rparr>) ids) (update_item_e ?u es)"
    by (simp add: update_e_def)
  also have "\<dots> = map (\<lambda>e. if edge_id e \<in> set ids then e\<lparr>edge_color := Some c\<rparr> else e) (update_item_e ?u es)"
    using Cons.prems ids by (intro Cons.IH) simp
  also have "\<dots> = map (\<lambda>e. if edge_id e \<in> set (i # ids) then e\<lparr>edge_color := Some c\<rparr> else e) es"
    using Cons.prems by (auto simp: update_item_e_def)
  finally show ?case .
qed

lemma update_all_ids:
  "update (map (\<lambda>i. \<lparr>upd_id = i, upd_color = c\<rparr>) (getIds ns)) ns = map (paint c) ns"
  by (simp add: update_same_color paint_def) (simp add: getIds_def)

lemma update_e_all_ids:
  "update_e (map (\<lambda>i. \<lparr>eupd_id = i, eupd_color = c\<rparr>) (getIds_e es)) es = map (paint_e c) es"
  by (simp add: update_e_same_color paint_e_def) (simp add: getIds_e_def)

lemma getIds_Nil: "getIds ns = [] \<longleftrightarrow> ns = []"
  by (simp add: getIds_def)

lemma getIds_e_Nil: "getIds_e es = [] \<longleftrightarrow> es = []"
  by (simp add: getIds_e_def)

lemma paint_paint: "paint c (paint c n) = paint c n"
  by (simp add: paint_def)

lemma paint_e_paint_e: "paint_e c (paint_e c e) = paint_e c e"
  by (simp add: paint_e_def)

lemma resetColors_absent: "nodes s = None \<or> edges s = None \<Longrightarrow> resetColors s = s"
  by (auto simp: resetColors_def split: option.splits)

lemma resetColors_present:
  assumes "nodes s = Some ns" and "edges s = Some es"
  shows "resetColors s =
           s\<lparr>nodes := Some (map (paint default_node_color) ns),
             edges := Some (map (paint_e default_edge_color) es),
             trace := trace s @ reset_calls ns es\<rparr>"
proof (rule page.equality)
  show "nodes (resetColors s) = nodes (s\<lparr>nodes := Some (map (paint default_node_color) ns),
             edges := Some (map (paint_e default_edge_color) es),
             trace := trace s @ reset_calls ns es\<rparr>)"
    using assms
    by (simp add: resetColors_def Let_def update_nodes_def update_edges_def emit_def update_all_ids getIds_Nil)
  show "edges (resetColors s) = edges (s\<lparr>nodes := Some (map (paint default_node_color) ns),
             edges := Some (map (paint_e default_edge_color) es),
             trace := trace s @ reset_calls ns es\<rparr>)"
    using assms
    by (simp add: resetColors_def Let_def update_nodes_def update_edges_def emit_def update_e_all_ids getIds_e_Nil)
  show "trace (resetColors s) = trace (s\<lparr>nodes := Some (map (paint default_node_color) ns),
             edges := Some (map (paint_e default_edge_color) es),
             trace := trace s @ reset_calls ns es\<rparr>)"
    using assms
    by (simp add: resetColors_def Let_def update_nodes_def update_edges_def emit_def reset_calls_def
          getIds_def getIds_e_def)
qed (simp_all add: assms resetColors_def Let_def update_nodes_def update_edges_def emit_def)

lemma resetColors_fixed:
  assumes "nodes t = nodes (resetColors s)" and "edges t = edges (resetColors s)"
  shows "nodes (resetColors t) = nodes (resetColors s) \<and> edges (resetColors t) = edges (resetColors s)"
proof (cases "nodes s = None \<or> edges s = None")
  case True
  then have "nodes t = None \<or> edges t = None" using assms by (auto simp: resetColors_absent)
  then show ?thesis using assms by (simp add: resetColors_absent)
next
  case False
  then obtain ns es where p: "nodes s = Some ns" "edges s = Some es" by auto
  have q: "nodes t = Some (map (paint default_node_color) ns)"
          "edges t = Some (map (paint_e default_edge_color) es)"
    using assms by (simp_all add: resetColors_present [OF p])
  show ?thesis
    by (simp add: resetColors_present [OF q] resetColors_present [OF p] paint_paint paint_e_paint_e)
qed

lemma resetColors_funpow:
  "nodes ((resetColors ^^ k) (resetColors s)) = nodes (resetColors s) \<and>
   edges ((resetColors ^^ k) (resetColors s)) = edges (resetColors s)"
proof (induction k)
  case 0
  show ?case by simp
next
  case (Suc k)
  show ?case using resetColors_fixed [OF conjunct1 [OF Suc] conjunct2 [OF Suc]] by simp
qed



lemma node_id_paint: "node_id (paint c n) = node_id n"
  by (simp add: paint_def)

lemma getIds_paint: "getIds (map (paint c) ns) = getIds ns"
  by (simp add: getIds_def node_id_paint)



lemma searchNodes_no_nodes: "nodes s = None \<Longrightarrow> searchNodes lower q s = s"
  by (simp add: searchNodes_def)

lemma searchNodes_of_blank: "trim q = [] \<Longrightarrow> searchNodes lower q s = resetColors s"
  by (cases "nodes s") (simp_all add: searchNodes_def resetColors_absent)


lemma searchNodes_nonblank_trace:
  assumes "trim q \<noteq> []" and "nodes (resetColors s) = Some ns1"
  shows "trace (searchNodes lower q s) = trace (resetColors s) @
           (if filter (node_matches lower q) ns1 = [] then []
            else [NodesUpdate (map (\<lambda>n. \<lparr>upd_id = node_id n, upd_color = search_node_color\<rparr>)
                                   (filter (node_matches lower q) ns1))])"
proof -
  have "nodes s \<noteq> None" using assms(2) by (cases "nodes s") (simp_all add: resetColors_absent)
  then obtain ns where ns: "nodes s = Some ns" by auto
  show ?thesis
    using assms ns
    by (simp add: searchNodes_def Let_def get_filter_def update_nodes_def emit_def)
qed

lemma searchNodes_nonblank_edges:
  assumes "trim q \<noteq> []" and "nodes (resetColors s) = Some ns1"
  shows "edges (searchNodes lower q s) = edges (resetColors s)"
proof -
  have "nodes s \<noteq> None" using assms(2) by (cases "nodes s") (simp_all add: resetColors_absent)
  then obtain ns where ns: "nodes s = Some ns" by auto
  show ?thesis
    using assms ns
    by (simp add: searchNodes_def Let_def get_filter_def update_nodes_def emit_def)
qed

lemma getIds_update:
  "set (map upd_id us) \<subseteq> set (getIds ns) \<Longrightarrow> getIds (update us ns) = getIds ns"
proof (induction us arbitrary: ns)
  case Nil
  then show ?case by (simp add: update_def)
next
  case (Cons u us)
  have "getIds (update_item u ns) = getIds ns" using Cons.prems by (simp add: getIds_update_item)
  then show ?case using Cons.prems Cons.IH [of "update_item u ns"] by (simp add: update_def)
qed

lemma searchNodes_nonblank_ids:
  assumes "trim q \<noteq> []" and "nodes (resetColors s) = Some ns1"
  shows "map_option getIds (nodes (searchNodes lower q s)) = Some (getIds ns1)"
proof -
  have "nodes s \<noteq> None" using assms(2) by (cases "nodes s") (simp_all add: resetColors_absent)
  then obtain ns where ns: "nodes s = Some ns" by auto
  have "set (map upd_id (map (\<lambda>n. \<lparr>upd_id = node_id n, upd_color = search_node_color\<rparr>)
                  (filter (node_matches lower q) ns1))) \<subseteq> set (getIds ns1)"
    by (auto simp: getIds_def)
  then show ?thesis
    using assms ns
    by (simp add: searchNodes_def Let_def get_filter_def update_nodes_def emit_def getIds_update
          del: set_map set_filter map_map)
qed

lemma keyed_reset_calls:
  assumes "nodes s = Some ns" and "edges s = Some es"
  shows "list_all (keyed_by_existing s) (reset_calls ns es)"
  using assms by (simp add: reset_calls_def list_all_iff)

lemma resetColors_keyed:
  "list_all (keyed_by_existing s) (new_events s (resetColors s)) \<and>
   map_option getIds (nodes (resetColors s)) = map_option getIds (nodes s) \<and>
   map_option getIds_e (edges (resetColors s)) = map_option getIds_e (edges s)"
proof (cases "nodes s = None \<or> edges s = None")
  case True
  then show ?thesis by (simp add: resetColors_absent new_events_def)
next
  case False
  then obtain ns es where p: "nodes s = Some ns" "edges s = Some es" by auto
  show ?thesis
    using keyed_reset_calls [OF p] p
    by (simp add: resetColors_present [OF p] new_events_def getIds_paint)
       (simp add: getIds_e_def paint_e_def)
qed

lemma searchNodes_keyed:
  "list_all (keyed_by_existing s) (new_events s (searchNodes lower q s)) \<and>
   map_option getIds (nodes (searchNodes lower q s)) = map_option getIds (nodes s) \<and>
   map_option getIds_e (edges (searchNodes lower q s)) = map_option getIds_e (edges s)"
proof (cases "nodes s")
  case None
  then show ?thesis by (simp add: searchNodes_no_nodes new_events_def)
next
  case (Some ns)
  show ?thesis
  proof (cases "trim q = []")
    case True
    then show ?thesis using resetColors_keyed [of s] by (simp add: searchNodes_of_blank)
  next
    case False
    have r: "map_option getIds (nodes (resetColors s)) = Some (getIds ns)"
      using resetColors_keyed [of s] Some by simp
    then obtain ns1 where n1: "nodes (resetColors s) = Some ns1" and i1: "getIds ns1 = getIds ns"
      by auto
    obtain added where t: "trace (resetColors s) = trace s @ added"
      by (cases "nodes s = None \<or> edges s = None")
         (auto simp: resetColors_absent resetColors_present)
    have k: "list_all (keyed_by_existing s)
              (if filter (node_matches lower q) ns1 = [] then []
               else [NodesUpdate (map (\<lambda>n. \<lparr>upd_id = node_id n, upd_color = search_node_color\<rparr>)
                                   (filter (node_matches lower q) ns1))])"
      using Some i1 [symmetric] by (auto simp: list_all_iff getIds_def)
    have "new_events s (searchNodes lower q s) =
            new_events s (resetColors s) @
              (if filter (node_matches lower q) ns1 = [] then []
               else [NodesUpdate (map (\<lambda>n. \<lparr>upd_id = node_id n, upd_color = search_node_color\<rparr>)
                                   (filter (node_matches lower q) ns1))])"
      using searchNodes_nonblank_trace [OF False n1] t by (simp add: new_events_def)
    then show ?thesis
      using k resetColors_keyed [of s] searchNodes_nonblank_ids [OF False n1] i1 Some
        searchNodes_nonblank_edges [OF False n1]
      by simp
  qed
qed

section \<open>Search and highlight\<close>




text \<open>
  Claim C2, as stated: a blank query leaves every node and every edge with its default
  colour. With the node collection present and the edge collection absent, the guard of
  \<open>resetColors\<close> returns before any update, and a node that was highlighted stays so.
\<close>

theorem searchNodes_blank_edges_absent:
  "trim '' '' = [] \<and> edges edgeless_page = None \<and>
   map color (case nodes (searchNodes ascii_lower '' '' edgeless_page) of None \<Rightarrow> [] | Some ns \<Rightarrow> ns) =
     [None, Some search_node_color] \<and>
   Some search_node_color \<noteq> Some default_node_color"
  by code_simp

text \<open>
  Claim C2, amended: for a query that is empty or consists of white space only, when both
  collections are present \<open>searchNodes\<close> leaves every node and every edge with its
  default colour, and the only requests sent are those of the reset, so that no highlight
  is applied; when a collection is absent the call changes nothing.
\<close>

theorem searchNodes_blank_resets:
  assumes "trim query = []"
  shows "(\<forall>ns es. nodes s = Some ns \<and> edges s = Some es \<longrightarrow>
            nodes (searchNodes lower query s) = Some (map (paint default_node_color) ns) \<and>
            edges (searchNodes lower query s) = Some (map (paint_e default_edge_color) es) \<and>
            trace (searchNodes lower query s) = trace s @ reset_calls ns es) \<and>
         (nodes s = None \<or> edges s = None \<longrightarrow> searchNodes lower query s = s)"
  using assms by (auto simp: searchNodes_of_blank resetColors_present resetColors_absent)

theorem searchNodes_blank_resets_witness:
  "trim '' '' = [] \<and> trim [CHR 0xC2, CHR 0xA0, CHR 0x09, CHR 0xE3, CHR 0x80, CHR 0x80] = [] \<and>
   nodes (searchNodes ascii_lower '' '' graph_page) =
     Some [\<lparr>node_id = 1, label = Some ''Head'', title = None, color = Some default_node_color\<rparr>,
           \<lparr>node_id = 2, label = Some ''42'', title = Some ''tail node'',
            color = Some default_node_color\<rparr>] \<and>
   edges (searchNodes ascii_lower '' '' graph_page) =
     Some [\<lparr>edge_id = 7, edge_color = Some default_edge_color\<rparr>] \<and>
   nodes (searchNodes ascii_lower [CHR 0xC2, CHR 0xA0, CHR 0x09, CHR 0xE3, CHR 0x80, CHR 0x80] graph_page) =
     Some [\<lparr>node_id = 1, label = Some ''Head'', title = None, color = Some default_node_color\<rparr>,
           \<lparr>node_id = 2, label = Some ''42'', title = Some ''tail node'',
            color = Some default_node_color\<rparr>] \<and>
   edges edgeless_page = None \<and>
   searchNodes ascii_lower '' '' edgeless_page = edgeless_page"
proof -
  have a: "trim '' '' = []" "trim [CHR 0xC2, CHR 0xA0, CHR 0x09, CHR 0xE3, CHR 0x80, CHR 0x80] = []"
    by code_simp+
  have b: "nodes graph_page = Some list_nodes" "edges graph_page = Some list_edges"
    by (simp_all add: graph_page_def blank_page_def)
  have d: "edges edgeless_page = None" by (simp add: edgeless_page_def blank_page_def)
  show ?thesis
    using searchNodes_blank_resets [OF a(1), of graph_page ascii_lower]
      searchNodes_blank_resets [OF a(2), of graph_page ascii_lower]
      searchNodes_blank_resets [OF a(1), of edgeless_page ascii_lower] a b d
    by (simp add: list_nodes_def list_edges_def paint_def paint_e_def)
qed

text \<open>
  Claim C6. \<open>resetColors\<close> is idempotent: after one call, any number of further calls
  leaves the colours of all nodes and edges as that one call left them. With both
  collections present that state is the default colour on every node and every edge, and
  a collection that is empty is sent no update request. With either collection absent the
  call changes nothing at all.
\<close>

theorem resetColors_idempotent:
  "nodes ((resetColors ^^ k) (resetColors s)) = nodes (resetColors s) \<and>
   edges ((resetColors ^^ k) (resetColors s)) = edges (resetColors s) \<and>
   (\<forall>ns es. nodes s = Some ns \<and> edges s = Some es \<longrightarrow>
      nodes (resetColors s) = Some (map (paint default_node_color) ns) \<and>
      edges (resetColors s) = Some (map (paint_e default_edge_color) es) \<and>
      trace (resetColors s) = trace s @ reset_calls ns es) \<and>
   (nodes s = None \<or> edges s = None \<longrightarrow> resetColors s = s)"
  using resetColors_funpow [of k s] by (simp add: resetColors_present resetColors_absent)

theorem resetColors_idempotent_witness:
  "nodes ((resetColors ^^ 3) (resetColors graph_page)) =
     Some [\<lparr>node_id = 1, label = Some ''Head'', title = None, color = Some default_node_color\<rparr>,
           \<lparr>node_id = 2, label = Some ''42'', title = Some ''tail node'',
            color = Some default_node_color\<rparr>] \<and>
   edges ((resetColors ^^ 3) (resetColors graph_page)) =
     Some [\<lparr>edge_id = 7, edge_color = Some default_edge_color\<rparr>] \<and>
   trace (resetColors no_nodes_page) =
     [EdgesUpdate [\<lparr>eupd_id = 7, eupd_color = default_edge_color\<rparr>]] \<and>
   resetColors edgeless_page = edgeless_page"
proof -
  have b: "nodes graph_page = Some list_nodes" "edges graph_page = Some list_edges"
    by (simp_all add: graph_page_def blank_page_def)
  have c: "nodes no_nodes_page = Some []" "edges no_nodes_page = Some list_edges"
          "trace no_nodes_page = []"
    by (simp_all add: no_nodes_page_def blank_page_def)
  have d: "edges edgeless_page = None" by (simp add: edgeless_page_def blank_page_def)
  show ?thesis
    using resetColors_idempotent [of 3 graph_page] resetColors_idempotent [of 0 no_nodes_page]
      resetColors_idempotent [of 0 edgeless_page] b c d
    by (simp add: list_nodes_def list_edges_def paint_def paint_e_def reset_calls_def getIds_e_def)
qed

text \<open>
  Claim C9. Every update request that \<open>resetColors\<close> and \<open>searchNodes\<close> send carries
  only ids of records that the collection holds, so the ids held by each collection are
  the same after the call as before: no record is created.
\<close>

theorem color_updates_keep_identity:
  "list_all (keyed_by_existing s) (new_events s (resetColors s)) \<and>
   map_option getIds (nodes (resetColors s)) = map_option getIds (nodes s) \<and>
   map_option getIds_e (edges (resetColors s)) = map_option getIds_e (edges s) \<and>
   list_all (keyed_by_existing s) (new_events s (searchNodes lower query s)) \<and>
   map_option getIds (nodes (searchNodes lower query s)) = map_option getIds (nodes s) \<and>
   map_option getIds_e (edges (searchNodes lower query s)) = map_option getIds_e (edges s)"
  using resetColors_keyed [of s] searchNodes_keyed [of s lower query] by simp

theorem color_updates_keep_identity_witness:
  "new_events graph_page (searchNodes ascii_lower ''tail'' graph_page) =
     [NodesUpdate [\<lparr>upd_id = 1, upd_color = default_node_color\<rparr>,
                   \<lparr>upd_id = 2, upd_color = default_node_color\<rparr>],
      EdgesUpdate [\<lparr>eupd_id = 7, eupd_color = default_edge_color\<rparr>],
      NodesUpdate [\<lparr>upd_id = 2, upd_color = search_node_color\<rparr>]] \<and>
   list_all (keyed_by_existing graph_page) (new_events graph_page (searchNodes ascii_lower ''tail'' graph_page)) \<and>
   map_option getIds (nodes (searchNodes ascii_lower ''tail'' graph_page)) = Some [1, 2] \<and>
   map_option getIds_e (edges (searchNodes ascii_lower ''tail'' graph_page)) = Some [7]"
proof -
  have a: "new_events graph_page (searchNodes ascii_lower ''tail'' graph_page) =
     [NodesUpdate [\<lparr>upd_id = 1, upd_color = default_node_color\<rparr>,
                   \<lparr>upd_id = 2, upd_color = default_node_color\<rparr>],
      EdgesUpdate [\<lparr>eupd_id = 7, eupd_color = default_edge_color\<rparr>],
      NodesUpdate [\<lparr>upd_id = 2, upd_color = search_node_color\<rparr>]]"
    by code_simp
  have b: "map_option getIds (nodes graph_page) = Some [1, 2]"
          "map_option getIds_e (edges graph_page) = Some [7]"
    by (simp_all add: graph_page_def blank_page_def list_nodes_def list_edges_def getIds_def getIds_e_def)
  show ?thesis
    using color_updates_keep_identity [of graph_page ascii_lower "''tail''"] a b by simp
qed

section \<open>Handlers that need the rendering engine\<close>

text \<open>
  Claim C3. When the rendering-engine handle, its canvas or the canvas frame is absent,
  \<open>exportPNG\<close> returns normally, and the page it leaves differs from the one it found by
  one error message on the console: there is no download.
\<close>

theorem exportPNG_without_surface:
  assumes "Option.bind (Option.bind (network s) canvas) frame = None"
  shows "exportPNG s =
           Inr (s\<lparr>trace := trace s @ [ConsoleError ''Network canvas not available for PNG export'']\<rparr>)"
  using assms by (auto simp: exportPNG_def emit_def split: option.splits Option.bind_splits)

theorem exportPNG_without_surface_witness:
  "Option.bind (Option.bind (network blank_page) canvas) frame = None \<and>
   Option.bind (Option.bind (network frameless_page) canvas) frame = None \<and>
   map_sum id trace (exportPNG blank_page) =
     Inr [ConsoleError ''Network canvas not available for PNG export''] \<and>
   map_sum id trace (exportPNG frameless_page) =
     Inr [ConsoleError ''Network canvas not available for PNG export'']"
proof -
  have a: "Option.bind (Option.bind (network blank_page) canvas) frame = None"
    by (simp add: blank_page_def)
  have b: "Option.bind (Option.bind (network frameless_page) canvas) frame = None"
    by (simp add: frameless_page_def blank_page_def)
  show ?thesis
    using exportPNG_without_surface [OF a] exportPNG_without_surface [OF b] a b
    by (simp add: blank_page_def frameless_page_def)
qed

text \<open>
  Claim C10. Without a rendering-engine handle \<open>clearSelection\<close> does nothing: the
  selection, the colours and the node-info panel are as they were.
\<close>

theorem clearSelection_without_network:
  assumes "network s = None"
  shows "clearSelection s = s"
  using assms by (simp add: clearSelection_def)

theorem clearSelection_without_network_witness:
  "network offline_page = None \<and> clearSelection offline_page = offline_page \<and>
   map_option (map color) (nodes (clearSelection offline_page)) =
     Some [None, Some search_node_color] \<and>
   map_option style_display (elements (clearSelection offline_page) ''node-info'') = Some ''block''"
proof -
  have a: "network offline_page = None"
    by (simp add: offline_page_def graph_page_def blank_page_def)
  have b: "map_option (map color) (nodes offline_page) = Some [None, Some search_node_color]"
    "map_option style_display (elements offline_page ''node-info'') = Some ''block''"
    by (simp_all add: offline_page_def graph_page_def blank_page_def list_nodes_def)
  show ?thesis using clearSelection_without_network [OF a] a b by simp
qed

section \<open>Icon injector\<close>

















section \<open>Theme manager\<close>

lemma trace_updateThemeButton: "trace (updateThemeButton l s) = trace s"
  by (simp add: updateThemeButton_def Let_def split: option.splits)

lemma trace_applyIcons: "trace (applyIcons s) = trace s"
  by (simp add: applyIcons_def)

lemma trace_run_listener: "trace (run_listener l s) = trace s"
  by (cases l) (simp_all add: trace_updateThemeButton trace_applyIcons split: option.splits)

lemma trace_fold_run_listener: "trace (fold run_listener ls s) = trace s"
  by (induction ls arbitrary: s) (simp_all add: trace_run_listener)

lemma trace_DOMContentLoaded: "trace (DOMContentLoaded s) = trace s"
  by (simp add: DOMContentLoaded_def trace_fold_run_listener)

lemma body_run_listener: "body_classList (run_listener l s) = body_classList s"
  by (cases l) (simp_all add: updateThemeButton_def applyIcons_def Let_def split: option.splits)

lemma body_fold_run_listener: "body_classList (fold run_listener ls s) = body_classList s"
  by (induction ls arbitrary: s) (simp_all add: body_run_listener)

lemma body_DOMContentLoaded: "body_classList (DOMContentLoaded s) = body_classList s"
  by (simp add: DOMContentLoaded_def body_fold_run_listener)

lemma script_load_unreachable:
  assumes "localStorage s = None"
  shows "script_load s =
           s\<lparr>listeners := listeners s @ [ThemeInit False, InfoBoxInit],
             trace := trace s @ [ConsoleWarn storage_warning]\<rparr>"
  using assms by (simp add: script_load_def theme_load_def emit_def Let_def)

lemma script_load_throwing:
  assumes "localStorage s = Some store" and "getItem_throws store"
  shows "script_load s =
           s\<lparr>listeners := listeners s @ [ThemeInit False, InfoBoxInit],
             trace := trace s @ [GetItem ''theme'', ConsoleWarn storage_warning]\<rparr>"
  using assms by (simp add: script_load_def theme_load_def emit_def Let_def)

lemma script_load_absent:
  assumes "localStorage s = Some store" and "\<not> getItem_throws store" and "entries store ''theme'' = None"
  shows "script_load s =
           s\<lparr>listeners := listeners s @ [ThemeInit False, InfoBoxInit],
             trace := trace s @ [GetItem ''theme'']\<rparr>"
  using assms by (simp add: script_load_def theme_load_def emit_def Let_def)

lemma store_calls_script_load:
  "filter is_store_call (new_events s (script_load s)) =
     (if localStorage s = None then [] else [GetItem ''theme''])"
  by (cases "localStorage s")
     (simp_all add: script_load_def theme_load_def emit_def Let_def new_events_def)

text \<open>
  Claim C8, as stated: at load the theme preference is read exactly once from the store.
  When reading the global \<open>localStorage\<close> throws, the load calls no method of the
  store at all: the warning is all it sends out.
\<close>

theorem load_unreachable_store_no_read:
  "localStorage no_store_page = None \<and>
   new_events no_store_page (DOMContentLoaded (script_load no_store_page)) =
     [ConsoleWarn storage_warning]"
  by code_simp

text \<open>
  Claim C8, amended: the load of the script, with the handlers of \<open>DOMContentLoaded\<close>,
  calls the store at most once: one \<open>getItem\<close> under the key \<open>theme\<close> when the store
  can be reached, and nothing when it cannot. When the store is unavailable (it cannot be
  reached, or its \<open>getItem\<close> throws) or holds no entry, the light class is not added and
  the handler registered for the theme button is the one of dark mode. An unavailable
  store shows in nothing but one warning on the console.
\<close>

theorem theme_read_at_load:
  "filter is_store_call (new_events s (DOMContentLoaded (script_load s))) =
     (if localStorage s = None then [] else [GetItem ''theme'']) \<and>
   (store_unavailable s \<or> theme_absent s \<longrightarrow>
      body_classList (DOMContentLoaded (script_load s)) = body_classList s \<and>
      listeners (script_load s) = listeners s @ [ThemeInit False, InfoBoxInit]) \<and>
   (store_unavailable s \<longrightarrow>
      script_load s =
        s\<lparr>listeners := listeners s @ [ThemeInit False, InfoBoxInit],
          trace := trace s @ (if localStorage s = None then [] else [GetItem ''theme'']) @
                   [ConsoleWarn storage_warning]\<rparr>)"
proof -
  have "new_events s (DOMContentLoaded (script_load s)) = new_events s (script_load s)"
    by (simp add: new_events_def trace_DOMContentLoaded)
  then have a: "filter is_store_call (new_events s (DOMContentLoaded (script_load s))) =
     (if localStorage s = None then [] else [GetItem ''theme''])"
    by (simp add: store_calls_script_load)
  have b: "store_unavailable s \<Longrightarrow> script_load s =
        s\<lparr>listeners := listeners s @ [ThemeInit False, InfoBoxInit],
          trace := trace s @ (if localStorage s = None then [] else [GetItem ''theme'']) @
                   [ConsoleWarn storage_warning]\<rparr>"
    by (cases "localStorage s")
       (simp_all add: store_unavailable_def script_load_unreachable script_load_throwing)
  have c: "theme_absent s \<Longrightarrow> \<not> store_unavailable s \<Longrightarrow> script_load s =
           s\<lparr>listeners := listeners s @ [ThemeInit False, InfoBoxInit],
             trace := trace s @ [GetItem ''theme'']\<rparr>"
    by (cases "localStorage s")
       (simp_all add: store_unavailable_def theme_absent_def script_load_absent)
  have d: "store_unavailable s \<or> theme_absent s \<Longrightarrow>
      body_classList (script_load s) = body_classList s \<and>
      listeners (script_load s) = listeners s @ [ThemeInit False, InfoBoxInit]"
    using b c by (cases "store_unavailable s") auto
  show ?thesis using a b d by (simp add: body_DOMContentLoaded)
qed

theorem theme_read_at_load_witness:
  "\<not> store_unavailable start_page \<and> theme_absent start_page \<and>
   new_events start_page (DOMContentLoaded (script_load start_page)) = [GetItem ''theme''] \<and>
   body_classList (DOMContentLoaded (script_load start_page)) = {} \<and>
   store_unavailable no_store_page \<and>
   body_classList (DOMContentLoaded (script_load no_store_page)) = {} \<and>
   listeners (script_load no_store_page) = [ThemeInit False, InfoBoxInit] \<and>
   trace (script_load no_store_page) = [ConsoleWarn storage_warning] \<and>
   store_unavailable throwing_store_page \<and>
   body_classList (DOMContentLoaded (script_load throwing_store_page)) = {} \<and>
   trace (script_load throwing_store_page) = [GetItem ''theme'', ConsoleWarn storage_warning]"
proof -
  have a: "\<not> store_unavailable start_page" "theme_absent start_page"
    "store_unavailable no_store_page" "store_unavailable throwing_store_page"
    by code_simp+
  have b: "body_classList start_page = {}" "body_classList no_store_page = {}"
    "body_classList throwing_store_page = {}"
    "trace start_page = []" "trace no_store_page = []" "trace throwing_store_page = []"
    "listeners no_store_page = []"
    "localStorage no_store_page = None" "localStorage throwing_store_page \<noteq> None"
    by (simp_all add: start_page_def no_store_page_def throwing_store_page_def blank_page_def)
  have c: "new_events start_page (DOMContentLoaded (script_load start_page)) = [GetItem ''theme'']"
    by code_simp
  have s1: "body_classList (DOMContentLoaded (script_load start_page)) = {}"
    using theme_read_at_load [of start_page, THEN conjunct2, THEN conjunct1] a b by simp
  have n1: "body_classList (DOMContentLoaded (script_load no_store_page)) = {} \<and>
            listeners (script_load no_store_page) = [ThemeInit False, InfoBoxInit]"
    using theme_read_at_load [of no_store_page, THEN conjunct2, THEN conjunct1] a b by simp
  have n2: "trace (script_load no_store_page) = [ConsoleWarn storage_warning]"
    using theme_read_at_load [of no_store_page, THEN conjunct2, THEN conjunct2] a b
    by (cases "script_load no_store_page") simp
  have t1: "body_classList (DOMContentLoaded (script_load throwing_store_page)) = {}"
    using theme_read_at_load [of throwing_store_page, THEN conjunct2, THEN conjunct1] a b by simp
  have t2: "trace (script_load throwing_store_page) = [GetItem ''theme'', ConsoleWarn storage_warning]"
    using theme_read_at_load [of throwing_store_page, THEN conjunct2, THEN conjunct2] a b
    by (cases "script_load throwing_store_page") simp
  show ?thesis using a c s1 n1 n2 t1 t2 by simp
qed

lemma is_light_toggleTheme: "is_light (toggleTheme s) = (\<not> is_light s)"
  by (auto simp: toggleTheme_def is_light_def toggle_class_def Let_def emit_def updateThemeButton_def
        split: option.splits)

lemma label_toggleTheme:
  "theme_button_label (toggleTheme s) =
     map_option (\<lambda>_. opposite_label (is_light (toggleTheme s))) (theme_button_label s)"
  by (auto simp: toggleTheme_def is_light_def toggle_class_def Let_def emit_def updateThemeButton_def
        theme_button_label_def opposite_label_def split: option.splits)

lemma writable_toggleTheme: "writable (toggleTheme s) = writable s"
  by (auto simp: toggleTheme_def Let_def emit_def updateThemeButton_def writable_def
        split: option.splits)

lemma stored_toggleTheme:
  "stored_theme (toggleTheme s) =
     (if writable s then Some (Some (if is_light (toggleTheme s) then ''light'' else ''dark''))
      else stored_theme s)"
  by (auto simp: toggleTheme_def is_light_def toggle_class_def Let_def emit_def updateThemeButton_def
        stored_theme_def writable_def split: option.splits)

text \<open>
  Claim C5, as stated: from any state, two calls of \<open>toggleTheme\<close> give back the value
  stored under \<open>theme\<close> and the label of the theme button. On a first visit the store
  has no entry before the two calls and the entry \<open>dark\<close> after them; and a button that
  still carries the label of the markup carries the label written by the script after
  them.
\<close>

theorem toggleTheme_twice_not_restoring:
  "stored_theme first_visit = Some None \<and>
   stored_theme (toggleTheme (toggleTheme first_visit)) = Some (Some ''dark'') \<and>
   theme_button_label start_page = Some ''Theme'' \<and>
   theme_button_label (toggleTheme (toggleTheme start_page)) =
     Some (button_icon (icon_of ''theme'') @ '' Switch to Light Theme'')"
  by code_simp

text \<open>
  Claim C5, amended: two calls of \<open>toggleTheme\<close> give back the mode of the page. They
  leave under \<open>theme\<close> the name of that mode when the store can be written, and the
  entry as it was when it cannot; and they leave on the theme button the label that names
  the opposite mode. So the stored value is given back exactly when the store cannot be
  written or held the name of the mode already, and the label exactly when there is no
  button or it carried that label already. Both are the case in every state that an
  earlier call of \<open>toggleTheme\<close> has left. After each single call the label names the
  mode opposite to the one the page is now in.
\<close>

theorem toggleTheme_twice:
  "is_light (toggleTheme (toggleTheme s)) = is_light s \<and>
   stored_theme (toggleTheme (toggleTheme s)) =
     (if writable s then Some (Some (if is_light s then ''light'' else ''dark''))
      else stored_theme s) \<and>
   theme_button_label (toggleTheme s) =
     map_option (\<lambda>_. opposite_label (is_light (toggleTheme s))) (theme_button_label s) \<and>
   theme_button_label (toggleTheme (toggleTheme s)) =
     map_option (\<lambda>_. opposite_label (is_light s)) (theme_button_label s) \<and>
   (stored_theme (toggleTheme (toggleTheme s)) = stored_theme s) =
     (\<not> writable s \<or> stored_theme s = Some (Some (if is_light s then ''light'' else ''dark''))) \<and>
   (theme_button_label (toggleTheme (toggleTheme s)) = theme_button_label s) =
     (theme_button_label s = None \<or> theme_button_label s = Some (opposite_label (is_light s))) \<and>
   stored_theme (toggleTheme (toggleTheme (toggleTheme s))) = stored_theme (toggleTheme s) \<and>
   theme_button_label (toggleTheme (toggleTheme (toggleTheme s))) =
     theme_button_label (toggleTheme s)"
proof -
  let ?s1 = "toggleTheme s"
  let ?s2 = "toggleTheme ?s1"
  let ?s3 = "toggleTheme ?s2"
  have l: "is_light ?s2 = is_light s" by (simp add: is_light_toggleTheme)
  have st: "stored_theme ?s2 =
     (if writable s then Some (Some (if is_light s then ''light'' else ''dark''))
      else stored_theme s)"
    by (simp add: stored_toggleTheme [of ?s1] stored_toggleTheme [of s] writable_toggleTheme l)
  have b1: "theme_button_label ?s1 =
     map_option (\<lambda>_. opposite_label (is_light ?s1)) (theme_button_label s)"
    by (rule label_toggleTheme)
  have b2: "theme_button_label ?s2 =
     map_option (\<lambda>_. opposite_label (is_light s)) (theme_button_label s)"
    by (simp add: label_toggleTheme [of ?s1] b1 l option.map_comp comp_def)
  have e1: "(stored_theme ?s2 = stored_theme s) =
     (\<not> writable s \<or> stored_theme s = Some (Some (if is_light s then ''light'' else ''dark'')))"
    unfolding st by auto
  have e2: "(theme_button_label ?s2 = theme_button_label s) =
     (theme_button_label s = None \<or> theme_button_label s = Some (opposite_label (is_light s)))"
    unfolding b2 by (cases "theme_button_label s") auto
  have l3: "is_light ?s3 = is_light ?s1" by (simp add: is_light_toggleTheme)
  have st3: "stored_theme ?s3 = stored_theme ?s1"
    by (simp add: stored_toggleTheme [of ?s2] stored_toggleTheme [of ?s1] stored_toggleTheme [of s]
          writable_toggleTheme l3)
  have b3: "theme_button_label ?s3 = theme_button_label ?s1"
    by (simp add: label_toggleTheme [of ?s2] b2 b1 l3 option.map_comp comp_def)
  show ?thesis using l st b1 b2 e1 e2 st3 b3 by simp
qed

theorem toggleTheme_twice_witness:
  "is_light first_visit = False \<and> writable first_visit \<and>
   stored_theme (toggleTheme first_visit) = Some (Some ''light'') \<and>
   stored_theme (toggleTheme (toggleTheme first_visit)) = Some (Some ''dark'') \<and>
   stored_theme (toggleTheme (toggleTheme (toggleTheme first_visit))) = Some (Some ''light'') \<and>
   theme_button_label first_visit = Some (button_icon (icon_of ''theme'') @ '' Switch to Light Theme'') \<and>
   theme_button_label (toggleTheme first_visit) =
     Some (button_icon (icon_of ''theme'') @ '' Switch to Dark Theme'') \<and>
   theme_button_label (toggleTheme (toggleTheme first_visit)) = theme_button_label first_visit \<and>
   \<not> writable throwing_store_page \<and>
   stored_theme (toggleTheme (toggleTheme throwing_store_page)) = stored_theme throwing_store_page"
proof -
  have a: "is_light first_visit = False" "writable first_visit"
    "is_light (toggleTheme first_visit) = True"
    "\<not> writable throwing_store_page"
    by code_simp+
  have b: "theme_button_label first_visit =
             Some (button_icon (icon_of ''theme'') @ '' Switch to Light Theme'')"
    by code_simp
  have c: "stored_theme (toggleTheme first_visit) = Some (Some ''light'')" by code_simp
  note t = toggleTheme_twice [of first_visit]
  have s2: "stored_theme (toggleTheme (toggleTheme first_visit)) = Some (Some ''dark'')"
    using t a by simp
  have s3: "stored_theme (toggleTheme (toggleTheme (toggleTheme first_visit))) = Some (Some ''light'')"
    using t c by simp
  have l1: "theme_button_label (toggleTheme first_visit) =
     Some (button_icon (icon_of ''theme'') @ '' Switch to Dark Theme'')"
    using t a b by (simp add: opposite_label_def)
  have l2: "theme_button_label (toggleTheme (toggleTheme first_visit)) = theme_button_label first_visit"
    using t a b by (simp add: opposite_label_def)
  have u: "stored_theme (toggleTheme (toggleTheme throwing_store_page)) = stored_theme throwing_store_page"
    using toggleTheme_twice [of throwing_store_page] a by simp
  show ?thesis using a b c s2 s3 l1 l2 u by simp
qed

section \<open>Info panel toggle\<close>

lemma toggleInfoBox_step:
  assumes "info_hidden s = Some h" and "toggle_face s \<noteq> None"
  shows "info_hidden (toggleInfoBox s) = Some (\<not> h) \<and>
         toggle_face (toggleInfoBox s) = Some (face_for (\<not> h))"
  using assms
  by (auto simp: info_hidden_def toggle_face_def toggleInfoBox_def Let_def toggle_class_def face_for_def)

lemma info_settled_toggleInfoBox:
  assumes "info_hidden s \<noteq> None" and "toggle_face s \<noteq> None"
  shows "info_settled (toggleInfoBox s)"
proof -
  obtain h where h: "info_hidden s = Some h" using assms(1) by auto
  show ?thesis using toggleInfoBox_step [OF h assms(2)] by (simp add: info_settled_def)
qed

lemma info_settled_InfoBoxInit:
  assumes "elements s ''info-box'' \<noteq> None" and "elements s ''toggle-info-btn'' \<noteq> None"
  shows "info_settled (run_listener InfoBoxInit s)"
  using assms by (auto simp: info_settled_def info_hidden_def toggle_face_def face_for_def)

lemma toggleInfoBox_funpow:
  assumes "info_hidden s = Some h" and "toggle_face s = Some f"
  shows "info_hidden ((toggleInfoBox ^^ n) s) = Some (if even n then h else \<not> h) \<and>
         toggle_face ((toggleInfoBox ^^ n) s) =
           Some (if n = 0 then f else face_for (if even n then h else \<not> h))"
proof (induction n)
  case 0
  show ?case using assms by simp
next
  case (Suc n)
  let ?t = "(toggleInfoBox ^^ n) s"
  let ?h = "if even n then h else \<not> h"
  have "info_hidden ?t = Some ?h" "toggle_face ?t \<noteq> None" using Suc by simp_all
  then have "info_hidden (toggleInfoBox ?t) = Some (\<not> ?h) \<and>
             toggle_face (toggleInfoBox ?t) = Some (face_for (\<not> ?h))"
    by (rule toggleInfoBox_step)
  then show ?case by simp
qed

lemma face_for_inj: "face_for a = face_for b \<longleftrightarrow> a = b"
  by (auto simp: face_for_def gear_icon_def arrow_icon_def)

text \<open>
  Claim C7, as stated: whenever the panel and its toggle button exist, an even number of
  calls of \<open>toggleInfoBox\<close> leaves the icon and the title of the button as they were.
  On a page whose button still shows what the markup gave it, two calls leave the arrow
  and the title of the visible panel.
\<close>

theorem toggleInfoBox_twice_markup_face:
  "info_hidden start_page = Some False \<and>
   toggle_face start_page = Some (''i'', []) \<and>
   info_hidden ((toggleInfoBox ^^ 2) start_page) = Some False \<and>
   toggle_face ((toggleInfoBox ^^ 2) start_page) = Some (arrow_icon, ''Hide Info Panel'')"
  by code_simp

text \<open>
  Claim C7, amended: when the panel and its toggle button exist, the panel is hidden after
  \<open>n\<close> calls of \<open>toggleInfoBox\<close> as before when \<open>n\<close> is even, and the other way round
  when \<open>n\<close> is odd; and from the first call on the button shows the face of that state:
  the gear and \<open>Show Info Panel\<close> for a hidden panel, the arrow and \<open>Hide Info Panel\<close>
  for a visible one. So an even number of calls, other than none, leaves icon and title as
  they were exactly when the button showed the face of the panel's state before, which
  is what the setup at \<open>DOMContentLoaded\<close> and every call leave; and from such a state
  an odd number of calls gives the button its other face.
\<close>

theorem toggleInfoBox_parity:
  assumes "info_hidden s = Some h" and "toggle_face s = Some f"
  shows "info_hidden ((toggleInfoBox ^^ n) s) = Some (if even n then h else \<not> h) \<and>
         (0 < n \<longrightarrow>
            toggle_face ((toggleInfoBox ^^ n) s) = Some (face_for (if even n then h else \<not> h))) \<and>
         (even n \<longrightarrow>
            (toggle_face ((toggleInfoBox ^^ n) s) = toggle_face s) = (n = 0 \<or> f = face_for h)) \<and>
         (odd n \<longrightarrow> f = face_for h \<longrightarrow>
            toggle_face ((toggleInfoBox ^^ n) s) = Some (face_for (\<not> h)) \<and>
            toggle_face ((toggleInfoBox ^^ n) s) \<noteq> toggle_face s)"
  using toggleInfoBox_funpow [OF assms, of n] assms
  by (auto simp: face_for_inj)

theorem toggleInfoBox_parity_witness:
  "info_hidden first_visit = Some True \<and>
   toggle_face first_visit = Some (gear_icon, ''Show Info Panel'') \<and>
   info_hidden ((toggleInfoBox ^^ 2) first_visit) = Some True \<and>
   toggle_face ((toggleInfoBox ^^ 2) first_visit) = Some (gear_icon, ''Show Info Panel'') \<and>
   info_hidden ((toggleInfoBox ^^ 3) first_visit) = Some False \<and>
   toggle_face ((toggleInfoBox ^^ 3) first_visit) = Some (arrow_icon, ''Hide Info Panel'') \<and>
   info_hidden start_page = Some False \<and>
   toggle_face start_page = Some (''i'', []) \<and>
   info_hidden ((toggleInfoBox ^^ 2) start_page) = Some False \<and>
   toggle_face ((toggleInfoBox ^^ 2) start_page) \<noteq> toggle_face start_page"
proof -
  have b: "info_hidden first_visit = Some True" by code_simp
  have c: "toggle_face first_visit = Some (gear_icon, ''Show Info Panel'')" by code_simp
  have d: "info_hidden start_page = Some False" "toggle_face start_page = Some (''i'', [])"
    by code_simp+
  have e: "(''i'', []) \<noteq> face_for False" by (simp add: face_for_def arrow_icon_def)
  show ?thesis
    using toggleInfoBox_parity [OF b c, of 2] toggleInfoBox_parity [OF b c, of 3]
      toggleInfoBox_parity [OF d, of 2] b c d e
    by (simp add: face_for_def del: funpow.simps)
qed

end
